theory Spec2Isabelle
  imports Complex_Main "HOL-Library.Sublist"
begin

section \<open>The speech-coach widget: session controller\<close>

text \<open>
  The component \<open>WidgetApp\<close> (the speech-coaching variant with sessions, audio chunks and
  stats polling, and the older notes-only variant \<open>components/VoiceNotes.js\<close>) is a React
  function component. Its handlers are embedded as functions on an explicit store.

  \<^item> A state variable such as \<open>isRecording\<close> is a \<open>const\<close> of one call of the component
    function: a handler reads the value its own render was given, whatever has been set
    since. Those constants are the record \<open>render\<close>, a parameter of every handler.
  \<^item> The setters (\<open>setIsRecording\<close>, \<open>setLiveStats\<close>, ...) and the \<open>useRef\<close> cells write to
    the record \<open>store\<close>; an updater function (\<open>setX(prev => ...)\<close>) reads the store.
  \<^item> Every call that leaves the component (a \<open>fetch\<close>, a timer, the recognition and
    recorder objects) is an \<open>action\<close>; a handler returns the list of actions it issued, in
    order. What the outside world answers is a parameter (\<open>outcome\<close>).
  \<^item> Each handler runs to its end on the store it is given: other events that arrive
    while it awaits a response are outside the model. \<open>console.log\<close> is left out.
\<close>

subsection \<open>JavaScript values\<close>

text \<open>A string or \<open>null\<close>/\<open>undefined\<close>; in a condition the empty string is false as well.\<close>

definition truthy :: "string option \<Rightarrow> bool" where
  "truthy x = (case x of None \<Rightarrow> False | Some s \<Rightarrow> s \<noteq> [])"

text \<open>\<open>a || b\<close> on a string that may be missing.\<close>

definition orElse :: "string option \<Rightarrow> string \<Rightarrow> string" where
  "orElse x d = (case x of None \<Rightarrow> d | Some s \<Rightarrow> if s = [] then d else s)"

text \<open>
  \<open>String.prototype.trim\<close> removes white space and line terminators at both ends. Of
  those, the characters an 8-bit \<open>char\<close> can hold are tab, line feed, vertical tab, form
  feed, carriage return, space and no-break space.
\<close>

definition isWhiteSpace :: "char \<Rightarrow> bool" where
  "isWhiteSpace ch = ((of_char ch :: nat) \<in> {9, 10, 11, 12, 13, 32, 160})"

definition trim :: "string \<Rightarrow> string" where
  "trim s = rev (dropWhile isWhiteSpace (rev (dropWhile isWhiteSpace s)))"

text \<open>A number inside a template literal, in decimal.\<close>

definition digit :: "nat \<Rightarrow> char" where
  "digit d = char_of (of_char CHR ''0'' + d)"

fun decimal :: "nat \<Rightarrow> string" where
  "decimal n = (if n div 10 = 0 then [digit n] else decimal (n div 10) @ [digit (n mod 10)])"

text \<open>The result of an awaited call: it throws an error with a message, or returns.\<close>

datatype 'a outcome = Throws string | Returns 'a

subsection \<open>Backend responses\<close>

type_synonym stats = "string \<rightharpoonup> real"

record analysis =
  overall_score :: real
  observations :: "string list"
  improvements :: "string list"
  quick_tip :: string

text \<open>
  The fields the component reads of a response body. \<open>live_stats\<close> and \<open>analysis\<close> are an
  object or missing; \<open>body_error\<close> is \<open>data.error\<close>.
\<close>

record payload =
  success :: bool
  body_error :: "string option"
  session_id :: "string option"
  live_stats :: "stats option"
  analysis :: "analysis option"

text \<open>
  What \<open>await fetch(...)\<close> returns: \<open>response.ok\<close>, \<open>response.status\<close> and what
  \<open>await response.json()\<close> gives. \<open>json = Throws m\<close> is a body that does not parse (or
  is not an object, so that reading \<open>data.success\<close> throws).
\<close>

datatype response = Response (ok: bool) (status: nat) (json: "payload outcome")

subsection \<open>Actions and the store\<close>

type_synonym blob = "nat list"

datatype audio_data = NoAudio | Base64 blob

datatype action =
    HttpCreateSession
  | HttpStartSession string
  | HttpPostAudio string audio_data string
  | HttpGetStats string
  | HttpStopSession string
  | HttpDeleteSession string
  | GetUserMedia
  | NewAudioContext
  | NewMediaRecorder
  | AudioContextClose
  | RecorderStart nat
  | RecorderStop
  | RecognitionStart
  | RecognitionStop
  | SetInterval nat
  | ClearInterval
  | SetTimeout nat

text \<open>The constants one render hands to the handlers it creates.\<close>

record render =
  sessionId :: "string option"
  isRecording :: bool
  isProcessingAudio :: bool
  finalTranscript :: string

datatype recorder_state = Inactive | Recording

text \<open>The interval of \<open>startStatsPolling\<close>; its callback keeps \<open>currentSessionId\<close>.\<close>

datatype timer = Timer (currentSessionId: "string option")

text \<open>
  The \<open>st_\<close> fields are the latest values given to the setters; the others are the
  \<open>.current\<close> of the refs. \<open>recognitionRef\<close> holds the recognition object, which is
  known by the render whose constants its handlers read; \<open>audioContextRef\<close> is true when
  a context is held.
\<close>

record store =
  st_error :: string
  st_isRecording :: bool
  st_transcript :: string
  st_finalTranscript :: string
  st_activeTab :: string
  st_sessionId :: "string option"
  st_liveStats :: stats
  st_speechAnalysis :: "analysis option"
  st_isProcessingAudio :: bool
  recognitionRef :: "render option"
  audioContextRef :: bool
  mediaRecorderRef :: "recorder_state option"
  audioChunks :: "blob list"
  statsIntervalRef :: "timer option"
  lastProcessedText :: string

text \<open>The initial value of \<open>liveStats\<close>, also written by \<open>clearTranscript\<close>.\<close>

definition zeroStats :: stats where
  "zeroStats = [''fluency'' \<mapsto> 0, ''volume'' \<mapsto> 0, ''articulation'' \<mapsto> 0,
     ''clarity'' \<mapsto> 0, ''filler_words'' \<mapsto> 0, ''speaking_rate'' \<mapsto> 0,
     ''confidence'' \<mapsto> 0]"

definition initialStore :: store where
  "initialStore = \<lparr> st_error = [], st_isRecording = False, st_transcript = [],
     st_finalTranscript = [], st_activeTab = ''notes'', st_sessionId = None,
     st_liveStats = zeroStats, st_speechAnalysis = None, st_isProcessingAudio = False,
     recognitionRef = None, audioContextRef = False, mediaRecorderRef = None,
     audioChunks = [], statsIntervalRef = None, lastProcessedText = [] \<rparr>"

text \<open>The constants the next render reads from the store.\<close>

definition renderOf :: "store \<Rightarrow> render" where
  "renderOf st = \<lparr> sessionId = st_sessionId st, isRecording = st_isRecording st,
     isProcessingAudio = st_isProcessingAudio st, finalTranscript = st_finalTranscript st \<rparr>"

subsection \<open>Live stats\<close>

text \<open>
  \<open>setLiveStats(prev => ({ ...prev, ...data.live_stats }))\<close>: the spread copies every
  key of the payload over the previous object.
\<close>

definition mergeStats :: "stats \<Rightarrow> stats \<Rightarrow> stats" where
  "mergeStats prev upd = prev ++ upd"

text \<open>\<open>if (data.success && data.live_stats) setLiveStats(...)\<close>.\<close>

definition applyLiveStats :: "payload \<Rightarrow> store \<Rightarrow> store" where
  "applyLiveStats d st =
     (case live_stats d of
        Some upd \<Rightarrow> if success d then st\<lparr>st_liveStats := mergeStats (st_liveStats st) upd\<rparr> else st
      | None \<Rightarrow> st)"

text \<open>
  What the three analysis requests (stats poll, audio chunk, text chunk) do with the
  answer: a thrown \<open>fetch\<close>, a response that is not \<open>ok\<close>, a body that does not parse
  and a body without \<open>success\<close> or \<open>live_stats\<close> all end in a \<open>console.error\<close> or in
  nothing.
\<close>

definition analysisReply :: "response outcome \<Rightarrow> store \<Rightarrow> store" where
  "analysisReply r st =
     (case r of
        Throws m \<Rightarrow> st
      | Returns resp \<Rightarrow>
          if ok resp then (case json resp of Throws m \<Rightarrow> st | Returns d \<Rightarrow> applyLiveStats d st)
          else st)"

text \<open>The interval callback of \<open>startStatsPolling\<close>.\<close>

definition pollTick :: "string option \<Rightarrow> response outcome \<Rightarrow> store \<Rightarrow> store \<times> action list" where
  "pollTick currentSession r st =
     (case currentSession of
        None \<Rightarrow> (st, [])
      | Some sid \<Rightarrow> if sid = [] then (st, []) else (analysisReply r st, [HttpGetStats sid]))"

definition startStatsPolling :: "string option \<Rightarrow> store \<Rightarrow> store \<times> action list" where
  "startStatsPolling currentSession st =
     (st\<lparr>statsIntervalRef := Some (Timer currentSession)\<rparr>,
      (if statsIntervalRef st \<noteq> None then [ClearInterval] else []) @ [SetInterval 1000])"


text \<open>
  The browser calls the interval callback once per period for as long as the interval is
  held in \<open>statsIntervalRef\<close>; \<open>runTicks\<close> gives it the responses of successive periods.
\<close>

fun runTicks :: "response outcome list \<Rightarrow> store \<Rightarrow> store \<times> action list" where
  "runTicks [] st = (st, [])"
| "runTicks (r # rs) st =
     (case statsIntervalRef st of
        None \<Rightarrow> (st, [])
      | Some t \<Rightarrow>
          (let (st1, a1) = pollTick (currentSessionId t) r st;
               (st2, a2) = runTicks rs st1
           in (st2, a1 @ a2)))"

subsection \<open>Text and audio chunks\<close>

text \<open>
  \<open>processTextUpdate\<close>: the guard, the comparison with the last text sent, then the
  request with an empty \<open>audio_data\<close>.
\<close>

definition processTextUpdate ::
  "render \<Rightarrow> string \<Rightarrow> response outcome \<Rightarrow> store \<Rightarrow> store \<times> action list" where
  "processTextUpdate v newText r st =
     (case sessionId v of
        None \<Rightarrow> (st, [])
      | Some sid \<Rightarrow>
          if sid = [] \<or> \<not> isRecording v \<or> trim newText = [] then (st, [])
          else if newText = lastProcessedText st then (st, [])
          else (analysisReply r (st\<lparr>lastProcessedText := newText\<rparr>),
                [HttpPostAudio sid NoAudio (trim newText)]))"

text \<open>
  \<open>processAudioChunk\<close>; reading the chunk into a buffer is taken to succeed. A response
  that is not \<open>ok\<close> is thrown and caught in place.
\<close>

definition processAudioChunk ::
  "render \<Rightarrow> blob \<Rightarrow> string \<Rightarrow> response outcome \<Rightarrow> store \<Rightarrow> store \<times> action list" where
  "processAudioChunk v audioData textChunk r st =
     (case sessionId v of
        None \<Rightarrow> (st, [])
      | Some sid \<Rightarrow>
          if sid = [] \<or> \<not> isRecording v then (st, [])
          else (analysisReply r st, [HttpPostAudio sid (Base64 audioData) textChunk]))"

text \<open>\<open>mediaRecorderRef.current.ondataavailable\<close>, set by \<open>initAudioProcessing\<close>.\<close>

definition ondataavailable ::
  "render \<Rightarrow> blob \<Rightarrow> response outcome \<Rightarrow> store \<Rightarrow> store \<times> action list" where
  "ondataavailable v dat r st =
     (if length dat > 0 then processAudioChunk v dat [] r (st\<lparr>audioChunks := audioChunks st @ [dat]\<rparr>)
      else (st, []))"

subsection \<open>Recognition events\<close>

text \<open>
  One entry of \<open>event.results\<close>: the transcript of its first alternative and \<open>isFinal\<close>.
\<close>

record result =
  transcript :: string
  isFinal :: bool

record event =
  resultIndex :: nat
  results :: "result list"

text \<open>
  The loop of \<open>recognition.onresult\<close> over \<open>event.results\<close> from \<open>event.resultIndex\<close>, on
  the variables \<open>(interim, final, newFinalText)\<close>.
\<close>

fun scanResults :: "result list \<Rightarrow> string \<times> string \<times> string \<Rightarrow> string \<times> string \<times> string" where
  "scanResults [] acc = acc"
| "scanResults (x # xs) (interim, final, newFinalText) =
     (if isFinal x then scanResults xs (interim, final @ transcript x @ '' '', transcript x)
      else scanResults xs (interim @ transcript x, final, newFinalText))"

text \<open>
  \<open>recognition.onresult\<close> of the coaching widget. \<open>c\<close> is the render the recognition
  object was created in: \<open>finalTranscript\<close> and \<open>processTextUpdate\<close> are that render's.
\<close>

definition onresult ::
  "render \<Rightarrow> event \<Rightarrow> response outcome \<Rightarrow> store \<Rightarrow> store \<times> action list" where
  "onresult c e r st =
     (case scanResults (drop (resultIndex e) (results e)) ([], [], []) of
        (interim, final, newFinalText) \<Rightarrow>
          if final \<noteq> [] then
            (let st1 = st\<lparr>st_finalTranscript := st_finalTranscript st @ final,
                           st_transcript := st_transcript st @ final @ interim\<rparr>
             in if trim newFinalText \<noteq> [] then processTextUpdate c (trim newFinalText) r st1
                else (st1, []))
          else (st\<lparr>st_transcript := finalTranscript c @ interim\<rparr>, []))"

text \<open>
  \<open>recognition.onresult\<close> of \<open>components/VoiceNotes.js\<close>: \<open>final\<close> starts from the
  render's \<open>finalTranscript\<close>, and both setters are given values.
\<close>

fun notesScan :: "result list \<Rightarrow> string \<times> string \<Rightarrow> string \<times> string" where
  "notesScan [] acc = acc"
| "notesScan (x # xs) (interim, final) =
     (if isFinal x then notesScan xs (interim, final @ transcript x @ '' '')
      else notesScan xs (interim @ transcript x, final))"

definition notes_onresult :: "render \<Rightarrow> event \<Rightarrow> store \<Rightarrow> store" where
  "notes_onresult c e st =
     (case notesScan (drop (resultIndex e) (results e)) ([], finalTranscript c) of
        (interim, final) \<Rightarrow> st\<lparr>st_finalTranscript := final, st_transcript := final @ interim\<rparr>)"

text \<open>
  \<open>recognition.onend\<close> and the function it gives to \<open>setTimeout\<close>. Both read the
  \<open>isRecording\<close> of the render the recognition object was created in; the ref is read
  when the timer fires. An error of \<open>start()\<close> is caught and logged.
\<close>

definition onend :: "render \<Rightarrow> store \<Rightarrow> store \<times> action list" where
  "onend c st = (if isRecording c then (st, [SetTimeout 100]) else (st, []))"

definition onendTimeout :: "render \<Rightarrow> store \<Rightarrow> store \<times> action list" where
  "onendTimeout c st =
     (if isRecording c \<and> recognitionRef st \<noteq> None then (st, [RecognitionStart]) else (st, []))"

subsection \<open>Session lifecycle\<close>

text \<open>
  The lifecycle requests (create, start, stop) read their answer the same way: a response
  that is not \<open>ok\<close> throws \<open>HTTP error! status: ...\<close>, a body without \<open>success\<close> throws
  \<open>data.error\<close> or the default message of the call.
\<close>

definition lifecycleReply :: "response outcome \<Rightarrow> string \<Rightarrow> payload outcome" where
  "lifecycleReply r dflt =
     (case r of
        Throws m \<Rightarrow> Throws m
      | Returns resp \<Rightarrow>
          if \<not> ok resp then Throws (''HTTP error! status: '' @ decimal (status resp))
          else
            (case json resp of
               Throws m \<Rightarrow> Throws m
             | Returns d \<Rightarrow> if success d then Returns d else Throws (orElse (body_error d) dflt)))"

text \<open>\<open>createVoiceSession\<close> catches its own errors and returns \<open>null\<close>.\<close>

definition createVoiceSession ::
  "response outcome \<Rightarrow> store \<Rightarrow> string option \<times> store \<times> action list" where
  "createVoiceSession r st =
     (case lifecycleReply r ''Failed to create session'' of
        Returns d \<Rightarrow> (session_id d, st\<lparr>st_sessionId := session_id d\<rparr>, [HttpCreateSession])
      | Throws m \<Rightarrow>
          (None, st\<lparr>st_error := ''Session creation failed: '' @ m\<rparr>, [HttpCreateSession]))"

text \<open>
  \<open>initAudioProcessing\<close> can fail before the audio context is stored (the microphone is
  refused) or after it (no recorder can be made); it catches the error and returns
  \<open>null\<close>, here \<open>False\<close>.
\<close>

datatype audio_init = MicrophoneFails string | RecorderFails string | AudioReady

definition initAudioProcessing :: "audio_init \<Rightarrow> store \<Rightarrow> bool \<times> store \<times> action list" where
  "initAudioProcessing a st =
     (case a of
        MicrophoneFails m \<Rightarrow>
          (False, st\<lparr>st_error := ''Audio initialization failed: '' @ m\<rparr>, [GetUserMedia])
      | RecorderFails m \<Rightarrow>
          (False, st\<lparr>audioContextRef := True, st_error := ''Audio initialization failed: '' @ m\<rparr>,
           [GetUserMedia, NewAudioContext])
      | AudioReady \<Rightarrow>
          (True, st\<lparr>audioContextRef := True, mediaRecorderRef := Some Inactive\<rparr>,
           [GetUserMedia, NewAudioContext, NewMediaRecorder]))"

text \<open>
  What the outside world answers during one \<open>startRecording\<close>. An action is listed when
  it is called, also when the call throws.
\<close>

record world =
  onCreate :: "response outcome"
  onAudioInit :: audio_init
  onStart :: "response outcome"
  onNewRecognition :: "unit outcome"
  onRecognitionStart :: "unit outcome"
  onRecorderStart :: "unit outcome"

text \<open>
  The \<open>try\<close> block of \<open>startRecording\<close>, from \<open>mediaRecorderRef.current.start(1000)\<close> on.
  The first component of the result is the message of the error thrown, if any.
\<close>

definition startCapture ::
  "string \<Rightarrow> world \<Rightarrow> store \<Rightarrow> action list \<Rightarrow> string option \<times> store \<times> action list" where
  "startCapture sid w st acts =
     (case (case mediaRecorderRef st of
              None \<Rightarrow> (None, st, acts)
            | Some rs \<Rightarrow>
                (case onRecorderStart w of
                   Throws m \<Rightarrow> (Some m, st, acts @ [RecorderStart 1000])
                 | Returns u \<Rightarrow>
                     (None, st\<lparr>mediaRecorderRef := Some Recording\<rparr>, acts @ [RecorderStart 1000])))
      of
        (Some m, st1, acts1) \<Rightarrow> (Some m, st1, acts1)
      | (None, st1, acts1) \<Rightarrow>
          (case startStatsPolling (Some sid) (st1\<lparr>st_isRecording := True\<rparr>) of
             (st2, acts2) \<Rightarrow> (None, st2\<lparr>lastProcessedText := []\<rparr>, acts1 @ acts2)))"

text \<open>
  The \<open>try\<close> block of \<open>startRecording\<close>. \<open>v\<close> is the render \<open>startRecording\<close> belongs
  to. \<open>c\<close> is the render \<open>initSpeechRecognition\<close> belongs to: \<open>useCallback\<close> keeps that
  function for as long as \<open>finalTranscript\<close> and \<open>isRecording\<close> do not change.
\<close>

definition startTry ::
  "render \<Rightarrow> render \<Rightarrow> world \<Rightarrow> store \<Rightarrow> string option \<times> store \<times> action list" where
  "startTry v c w st =
     (case (if truthy (sessionId v) then (sessionId v, st, []) else createVoiceSession (onCreate w) st) of
        (cur, st1, a1) \<Rightarrow>
          (case cur of
             None \<Rightarrow> (Some ''Failed to create voice session'', st1, a1)
           | Some sid \<Rightarrow>
               if sid = [] then (Some ''Failed to create voice session'', st1, a1)
               else
                 (case initAudioProcessing (onAudioInit w) st1 of
                    (audioSetup, st2, a2) \<Rightarrow>
                      if \<not> audioSetup then (Some ''Failed to initialize audio'', st2, a1 @ a2)
                      else
                        (case lifecycleReply (onStart w) ''Failed to start recording session'' of
                           Throws m \<Rightarrow> (Some m, st2, a1 @ a2 @ [HttpStartSession sid])
                         | Returns d \<Rightarrow>
                             (case onNewRecognition w of
                                Throws m \<Rightarrow> (Some m, st2, a1 @ a2 @ [HttpStartSession sid])
                              | Returns u \<Rightarrow>
                                  (case onRecognitionStart w of
                                     Throws m \<Rightarrow>
                                       (Some m, st2\<lparr>recognitionRef := Some c\<rparr>,
                                        a1 @ a2 @ [HttpStartSession sid, RecognitionStart])
                                   | Returns u' \<Rightarrow>
                                       startCapture sid w (st2\<lparr>recognitionRef := Some c\<rparr>)
                                         (a1 @ a2 @ [HttpStartSession sid, RecognitionStart])))))))"

text \<open>The \<open>catch\<close> block of \<open>startRecording\<close>.\<close>

definition startCatch :: "string \<Rightarrow> store \<Rightarrow> store \<times> action list" where
  "startCatch m st =
     (st\<lparr>st_error := ''Failed to start recording: '' @ m,
         mediaRecorderRef := (if mediaRecorderRef st = Some Recording then Some Inactive
                              else mediaRecorderRef st),
         audioContextRef := False,
         st_isRecording := False\<rparr>,
      (if recognitionRef st \<noteq> None then [RecognitionStop] else []) @
      (if mediaRecorderRef st = Some Recording then [RecorderStop] else []) @
      (if audioContextRef st then [AudioContextClose] else []))"

definition startRecording :: "render \<Rightarrow> render \<Rightarrow> world \<Rightarrow> store \<Rightarrow> store \<times> action list" where
  "startRecording v c w st =
     (if isProcessingAudio v \<or> isRecording v then (st, [])
      else
        (case startTry v c w (st\<lparr>st_isProcessingAudio := True, st_error := []\<rparr>) of
           (None, st1, a1) \<Rightarrow> (st1\<lparr>st_isProcessingAudio := False\<rparr>, a1)
         | (Some m, st1, a1) \<Rightarrow>
             (case startCatch m st1 of
                (st2, a2) \<Rightarrow> (st2\<lparr>st_isProcessingAudio := False\<rparr>, a1 @ a2))))"




subsection \<open>Failed requests and sample runs\<close>

text \<open>
  A stats request that fails: the \<open>fetch\<close> throws, the status is not a success, or the
  body does not parse or lacks \<open>success\<close> or \<open>live_stats\<close>.
\<close>

definition tickFails :: "response outcome \<Rightarrow> bool" where
  "tickFails r =
     (case r of
        Throws m \<Rightarrow> True
      | Returns resp \<Rightarrow>
          \<not> ok resp \<or>
          (case json resp of Throws m \<Rightarrow> True | Returns d \<Rightarrow> \<not> success d \<or> live_stats d = None))"

text \<open>A backend that answers every lifecycle request with success and the id \<open>s1\<close>.\<close>

definition goodBody :: payload where
  "goodBody = \<lparr> success = True, body_error = None, session_id = Some ''s1'',
     live_stats = None, analysis = None \<rparr>"

definition goodReply :: "response outcome" where
  "goodReply = Returns (Response True 200 (Returns goodBody))"

definition goodWorld :: world where
  "goodWorld = \<lparr> onCreate = goodReply, onAudioInit = AudioReady, onStart = goodReply,
     onNewRecognition = Returns (), onRecognitionStart = Returns (),
     onRecorderStart = Returns () \<rparr>"


text \<open>A stats answer that names one metric.\<close>

definition fluencyReply :: response where
  "fluencyReply = Response True 200
     (Returns (goodBody\<lparr>live_stats := Some [''fluency'' \<mapsto> 70]\<rparr>))"

text \<open>
  The first render of the component, and the store after \<open>startRecording\<close> of that render
  has run without error. \<open>recordingRender\<close> is the render that follows.
\<close>

definition firstRender :: render where
  "firstRender = renderOf initialStore"

definition startedStore :: store where
  "startedStore = fst (startRecording firstRender firstRender goodWorld initialStore)"

definition recordingRender :: render where
  "recordingRender = renderOf startedStore"

text \<open>Recognition events with a single result.\<close>

definition interimEvent :: "string \<Rightarrow> event" where
  "interimEvent t = \<lparr> resultIndex = 0, results = [\<lparr> transcript = t, isFinal = False \<rparr>] \<rparr>"

definition finalEvent :: "string \<Rightarrow> event" where
  "finalEvent t = \<lparr> resultIndex = 0, results = [\<lparr> transcript = t, isFinal = True \<rparr>] \<rparr>"

section \<open>Properties\<close>

subsection \<open>Analysis answers and the stats poller\<close>

lemma analysisReply_frame [simp]:
  "st_error (analysisReply r st) = st_error st"
  "st_isRecording (analysisReply r st) = st_isRecording st"
  "st_transcript (analysisReply r st) = st_transcript st"
  "st_finalTranscript (analysisReply r st) = st_finalTranscript st"
  "st_sessionId (analysisReply r st) = st_sessionId st"
  "statsIntervalRef (analysisReply r st) = statsIntervalRef st"
  "lastProcessedText (analysisReply r st) = lastProcessedText st"
  "recognitionRef (analysisReply r st) = recognitionRef st"
  by (auto simp: analysisReply_def applyLiveStats_def split: outcome.splits option.splits)

lemma analysisReply_failed: "tickFails r \<Longrightarrow> analysisReply r st = st"
  by (auto simp: tickFails_def analysisReply_def applyLiveStats_def
      split: outcome.splits option.splits)

lemma analysisReply_success:
  assumes "ok resp" and "json resp = Returns d" and "success d" and "live_stats d = Some upd"
  shows "analysisReply (Returns resp) st = st\<lparr>st_liveStats := st_liveStats st ++ upd\<rparr>"
  using assms by (simp add: analysisReply_def applyLiveStats_def mergeStats_def)

lemma runTicks_timer: "statsIntervalRef (fst (runTicks rs st)) = statsIntervalRef st"
  by (induction rs arbitrary: st)
     (auto simp: pollTick_def case_prod_unfold Let_def split: option.splits)

lemma runTicks_requests:
  "statsIntervalRef st = Some (Timer (Some sid)) \<Longrightarrow> sid \<noteq> [] \<Longrightarrow>
   snd (runTicks rs st) = replicate (length rs) (HttpGetStats sid)"
proof (induction rs arbitrary: st)
  case Nil
  then show ?case by simp
next
  case (Cons r rs)
  have "statsIntervalRef (analysisReply r st) = Some (Timer (Some sid))"
    using Cons.prems by simp
  from Cons.IH[OF this Cons.prems(2)] Cons.prems show ?case
    by (simp add: pollTick_def case_prod_unfold Let_def)
qed

lemma first_render [simp]:
  "sessionId firstRender = None" "isRecording firstRender = False"
  "isProcessingAudio firstRender = False" "finalTranscript firstRender = []"
  by (simp_all add: firstRender_def renderOf_def initialStore_def)

lemma first_start:
  "startRecording firstRender firstRender goodWorld initialStore =
     (initialStore\<lparr>st_sessionId := Some ''s1'', st_isRecording := True,
        recognitionRef := Some firstRender, audioContextRef := True,
        mediaRecorderRef := Some Recording, statsIntervalRef := Some (Timer (Some ''s1''))\<rparr>,
      [HttpCreateSession, GetUserMedia, NewAudioContext, NewMediaRecorder,
       HttpStartSession ''s1'', RecognitionStart, RecorderStart 1000, SetInterval 1000])"
  by (simp add: startRecording_def startTry_def startCapture_def startStatsPolling_def
      createVoiceSession_def initAudioProcessing_def lifecycleReply_def truthy_def
      goodWorld_def goodReply_def goodBody_def initialStore_def)

lemma started_store [simp]:
  "st_isRecording startedStore" "st_sessionId startedStore = Some ''s1''"
  "recognitionRef startedStore = Some firstRender" "audioContextRef startedStore"
  "mediaRecorderRef startedStore = Some Recording"
  "statsIntervalRef startedStore = Some (Timer (Some ''s1''))"
  "st_liveStats startedStore = zeroStats" "lastProcessedText startedStore = []"
  "st_isProcessingAudio startedStore = False"
  unfolding startedStore_def first_start by (simp_all add: initialStore_def)

lemma recording_render [simp]:
  "sessionId recordingRender = Some ''s1''" "isRecording recordingRender"
  "isProcessingAudio recordingRender = False"
  by (simp_all add: recordingRender_def renderOf_def)

text \<open>
  C7. A poll tick whose request fails leaves the store as it was, the live stats with
  it, and the interval stays in place: the ticks after it run as if it had not happened,
  each with its own request. Only \<open>stopStatsPolling\<close> (and a new \<open>startStatsPolling\<close>)
  clear the interval.
\<close>

theorem failed_tick_keeps_stats:
  assumes "statsIntervalRef st = Some (Timer (Some sid))" and "sid \<noteq> []" and "tickFails r"
  shows "pollTick (Some sid) r st = (st, [HttpGetStats sid])
       \<and> runTicks (r # rs) st = (fst (runTicks rs st), HttpGetStats sid # snd (runTicks rs st))
       \<and> statsIntervalRef (fst (runTicks (r # rs) st)) = Some (Timer (Some sid))
       \<and> snd (runTicks (r # rs) st) = replicate (Suc (length rs)) (HttpGetStats sid)"
proof -
  have t: "pollTick (Some sid) r st = (st, [HttpGetStats sid])"
    using assms by (simp add: pollTick_def analysisReply_failed)
  have "runTicks (r # rs) st = (fst (runTicks rs st), HttpGetStats sid # snd (runTicks rs st))"
    using assms(1) t by (simp add: case_prod_unfold Let_def)
  moreover have "statsIntervalRef (fst (runTicks (r # rs) st)) = Some (Timer (Some sid))"
    using assms(1) by (simp only: runTicks_timer)
  moreover have "snd (runTicks (r # rs) st) = replicate (Suc (length rs)) (HttpGetStats sid)"
    using runTicks_requests[OF assms(1,2), of "r # rs"] by simp
  ultimately show ?thesis using t by simp
qed

theorem failed_tick_keeps_stats_witness:
  "statsIntervalRef startedStore = Some (Timer (Some ''s1'')) \<and> tickFails (Throws ''Failed to fetch'')
   \<and> pollTick (Some ''s1'') (Throws ''Failed to fetch'') startedStore = (startedStore, [HttpGetStats ''s1''])
   \<and> runTicks [Throws ''Failed to fetch'', Returns fluencyReply] startedStore =
       (fst (runTicks [Returns fluencyReply] startedStore),
        HttpGetStats ''s1'' # snd (runTicks [Returns fluencyReply] startedStore))
   \<and> snd (runTicks [Throws ''Failed to fetch'', Returns fluencyReply] startedStore) =
       [HttpGetStats ''s1'', HttpGetStats ''s1'']"
proof -
  have h1: "statsIntervalRef startedStore = Some (Timer (Some ''s1''))" by simp
  have h2: "''s1'' \<noteq> []" by simp
  have h3: "tickFails (Throws ''Failed to fetch'')" by (simp add: tickFails_def)
  note c = failed_tick_keeps_stats[OF h1 h2 h3, of "[Returns fluencyReply]"]
  have "snd (runTicks [Throws ''Failed to fetch'', Returns fluencyReply] startedStore) =
       [HttpGetStats ''s1'', HttpGetStats ''s1'']"
    using c[THEN conjunct2, THEN conjunct2, THEN conjunct2] by (simp del: runTicks.simps)
  with c h1 h3 show ?thesis by blast
qed

text \<open>
  C9. When a stats request or an audio-chunk request is answered with success and a
  \<open>live_stats\<close> object, the new live stats hold, for every metric, the value of the
  answer where the answer names the metric and the previous value where it does not;
  nothing else in the store changes.
\<close>

theorem live_stats_merge:
  assumes "ok resp" and "json resp = Returns d" and "success d" and "live_stats d = Some upd"
    and "sessionId v = Some sid" and "sid \<noteq> []" and "isRecording v"
  shows "st_liveStats (fst (pollTick (Some sid) (Returns resp) st)) k =
           (case upd k of Some x \<Rightarrow> Some x | None \<Rightarrow> st_liveStats st k)
       \<and> st_liveStats (fst (processAudioChunk v dat tc (Returns resp) st)) k =
           (case upd k of Some x \<Rightarrow> Some x | None \<Rightarrow> st_liveStats st k)
       \<and> fst (pollTick (Some sid) (Returns resp) st) =
           st\<lparr>st_liveStats := st_liveStats (fst (pollTick (Some sid) (Returns resp) st))\<rparr>
       \<and> fst (processAudioChunk v dat tc (Returns resp) st) =
           st\<lparr>st_liveStats := st_liveStats (fst (processAudioChunk v dat tc (Returns resp) st))\<rparr>"
  using assms
  by (simp add: pollTick_def processAudioChunk_def analysisReply_success map_add_def)

theorem live_stats_merge_witness:
  "ok fluencyReply \<and> sessionId recordingRender = Some ''s1'' \<and> isRecording recordingRender
   \<and> st_liveStats (fst (pollTick (Some ''s1'') (Returns fluencyReply) startedStore)) ''fluency'' = Some 70
   \<and> st_liveStats (fst (pollTick (Some ''s1'') (Returns fluencyReply) startedStore)) ''volume'' = Some 0
   \<and> st_liveStats (fst (processAudioChunk recordingRender [1, 2] [] (Returns fluencyReply) startedStore))
         ''fluency'' = Some 70
   \<and> st_liveStats (fst (processAudioChunk recordingRender [1, 2] [] (Returns fluencyReply) startedStore))
         ''clarity'' = Some 0"
proof -
  have h1: "ok fluencyReply"
    and h2: "json fluencyReply = Returns (goodBody\<lparr>live_stats := Some [''fluency'' \<mapsto> 70]\<rparr>)"
    and h3: "success (goodBody\<lparr>live_stats := Some [''fluency'' \<mapsto> 70]\<rparr>)"
    and h4: "live_stats (goodBody\<lparr>live_stats := Some [''fluency'' \<mapsto> 70]\<rparr>) = Some [''fluency'' \<mapsto> 70]"
    by (simp_all add: fluencyReply_def goodBody_def)
  have h5: "sessionId recordingRender = Some ''s1''" and h6: "''s1'' \<noteq> []"
    and h7: "isRecording recordingRender"
    by simp_all
  note m = live_stats_merge[OF h1 h2 h3 h4 h5 h6 h7, where st = startedStore
      and dat = "[1, 2]" and tc = "[]"]
  from m[where k = "''fluency''"] m[where k = "''volume''"] m[where k = "''clarity''"] h1 h5 h7
  show ?thesis by (simp add: zeroStats_def)
qed

subsection \<open>Text updates\<close>

lemma trim_blank: "(trim s = []) = (\<forall>ch \<in> set s. isWhiteSpace ch)"
proof -
  have "set s = set (takeWhile isWhiteSpace s) \<union> set (dropWhile isWhiteSpace s)"
    by (metis set_append takeWhile_dropWhile_id)
  moreover have "\<forall>x \<in> set (takeWhile isWhiteSpace s). isWhiteSpace x"
    by (auto dest: set_takeWhileD)
  ultimately have "(\<forall>x \<in> set (dropWhile isWhiteSpace s). isWhiteSpace x) =
      (\<forall>x \<in> set s. isWhiteSpace x)"
    by auto
  then show ?thesis
    by (simp add: trim_def)
qed

lemma trim_hello [simp]: "trim ''hello'' = ''hello''"
  by (simp add: trim_def isWhiteSpace_def)

text \<open>
  C10. A call of \<open>processTextUpdate\<close> that reads no session id, reads \<open>isRecording\<close> as
  false, or is given a text that is empty or white space only sends no request and leaves
  the store, \<open>lastProcessedText\<close> included, as it was.
\<close>

theorem text_update_guard:
  assumes "\<not> truthy (sessionId v) \<or> \<not> isRecording v \<or> (\<forall>ch \<in> set newText. isWhiteSpace ch)"
  shows "processTextUpdate v newText r st = (st, [])"
  using assms
  by (auto simp: processTextUpdate_def truthy_def trim_blank split: option.splits)

theorem text_update_guard_witness:
  "\<not> truthy (sessionId firstRender)
   \<and> processTextUpdate firstRender ''hello'' goodReply startedStore = (startedStore, [])
   \<and> isWhiteSpace CHR '' ''
   \<and> processTextUpdate recordingRender ''  '' goodReply startedStore = (startedStore, [])"
proof -
  have h1: "\<not> truthy (sessionId firstRender)" by (simp add: truthy_def)
  have h2: "\<forall>ch \<in> set ''  ''. isWhiteSpace ch" by (simp add: isWhiteSpace_def)
  from text_update_guard[of firstRender "''hello''" goodReply startedStore] h1
  have "processTextUpdate firstRender ''hello'' goodReply startedStore = (startedStore, [])"
    by blast
  moreover from text_update_guard[of recordingRender "''  ''" goodReply startedStore] h2
  have "processTextUpdate recordingRender ''  '' goodReply startedStore = (startedStore, [])"
    by blast
  moreover have "isWhiteSpace CHR '' ''" by (simp add: isWhiteSpace_def)
  ultimately show ?thesis using h1 by blast
qed

text \<open>
  The comparison with the last text sent. In a render that has a session id and reads
  \<open>isRecording\<close> as true, a segment that is not blank is sent for analysis exactly when
  it differs from \<open>lastProcessedText\<close>; when it is sent, \<open>lastProcessedText\<close> becomes the
  segment. The same segment given a second time is not sent: a new segment given twice in
  a row makes one request.
\<close>

lemma dedup_when_guard_passes:
  assumes "sessionId v = Some sid" and "sid \<noteq> []" and "isRecording v" and "trim seg \<noteq> []"
  shows "(snd (processTextUpdate v seg r st) \<noteq> []) = (seg \<noteq> lastProcessedText st)
       \<and> (seg \<noteq> lastProcessedText st \<longrightarrow>
            snd (processTextUpdate v seg r st) = [HttpPostAudio sid NoAudio (trim seg)]
            \<and> lastProcessedText (fst (processTextUpdate v seg r st)) = seg)
       \<and> (seg = lastProcessedText st \<longrightarrow> processTextUpdate v seg r st = (st, []))
       \<and> snd (processTextUpdate v seg r' (fst (processTextUpdate v seg r st))) = []
       \<and> length (snd (processTextUpdate v seg r st) @
                  snd (processTextUpdate v seg r' (fst (processTextUpdate v seg r st)))) =
           (if seg \<noteq> lastProcessedText st then 1 else 0)"
  using assms by (auto simp: processTextUpdate_def)

lemma dedup_in_recording_render:
  "snd (processTextUpdate recordingRender ''hello'' goodReply startedStore) =
        [HttpPostAudio ''s1'' NoAudio ''hello'']
   \<and> lastProcessedText (fst (processTextUpdate recordingRender ''hello'' goodReply startedStore)) = ''hello''
   \<and> snd (processTextUpdate recordingRender ''hello'' goodReply
          (fst (processTextUpdate recordingRender ''hello'' goodReply startedStore))) = []"
proof -
  have h1: "sessionId recordingRender = Some ''s1''" and h2: "''s1'' \<noteq> []"
    and h3: "isRecording recordingRender" and h4: "trim ''hello'' \<noteq> []"
    and h5: "''hello'' \<noteq> lastProcessedText startedStore"
    by simp_all
  from dedup_when_guard_passes[OF h1 h2 h3 h4, of goodReply startedStore goodReply] h5
  show ?thesis by simp
qed

subsection \<open>Stopping\<close>












subsection \<open>Starting\<close>

lemma startCapture_effect:
  "startCapture sid w st acts = (x, st1, a1) \<Longrightarrow>
     recognitionRef st1 = recognitionRef st \<and> audioContextRef st1 = audioContextRef st
     \<and> st_sessionId st1 = st_sessionId st
     \<and> (\<exists>more. a1 = acts @ more \<and> RecognitionStart \<notin> set more
           \<and> NewAudioContext \<notin> set more \<and> HttpCreateSession \<notin> set more)"
  by (auto simp: startCapture_def startStatsPolling_def split: option.splits outcome.splits)

lemma createVoiceSession_effect:
  "createVoiceSession r st = (cur, st1, a1) \<Longrightarrow>
     a1 = [HttpCreateSession] \<and> recognitionRef st1 = recognitionRef st
     \<and> audioContextRef st1 = audioContextRef st
     \<and> st_sessionId st1 =
         (case lifecycleReply r ''Failed to create session'' of
            Returns d \<Rightarrow> session_id d | Throws m \<Rightarrow> st_sessionId st)"
  by (auto simp: createVoiceSession_def split: outcome.splits)

lemma startTry_effect:
  assumes "startTry v c w st = (x, st1, a1)"
  shows "(NewAudioContext \<in> set a1 \<longrightarrow> audioContextRef st1)
       \<and> (RecognitionStart \<in> set a1 \<longrightarrow> recognitionRef st1 \<noteq> None)
       \<and> count_list a1 HttpCreateSession \<le> (if truthy (sessionId v) then 0 else 1)
       \<and> st_sessionId st1 =
           (if truthy (sessionId v) then st_sessionId st
            else case lifecycleReply (onCreate w) ''Failed to create session'' of
                   Returns d \<Rightarrow> session_id d | Throws m \<Rightarrow> st_sessionId st)"
  using assms
  apply (simp add: startTry_def initAudioProcessing_def
      split: if_splits prod.splits option.splits outcome.splits audio_init.splits)
  apply (auto dest!: startCapture_effect createVoiceSession_effect split: outcome.splits)
  done

text \<open>
  The \<open>try\<close> block ends without an error only if every step succeeded: a session id is
  at hand or was created, the audio set-up returned, the backend accepted the start, and
  the recognition object and the recorder started.
\<close>

lemma startTry_succeeds_only_if:
  assumes "fst (startTry v c w st) = None"
  shows "(truthy (sessionId v) \<or>
           (\<exists>d. lifecycleReply (onCreate w) ''Failed to create session'' = Returns d
                \<and> truthy (session_id d)))
       \<and> onAudioInit w = AudioReady
       \<and> (\<exists>d. lifecycleReply (onStart w) ''Failed to start recording session'' = Returns d)
       \<and> (\<exists>u. onNewRecognition w = Returns u)
       \<and> (\<exists>u. onRecognitionStart w = Returns u)
       \<and> (\<exists>u. onRecorderStart w = Returns u)"
  using assms
  apply (simp add: startTry_def initAudioProcessing_def createVoiceSession_def truthy_def
      split: if_splits prod.splits option.splits outcome.splits audio_init.splits)
  apply (auto simp: startCapture_def startStatsPolling_def split: option.splits outcome.splits)
  done

lemma startCatch_store:
  "fst (startCatch m st) =
     st\<lparr>st_error := ''Failed to start recording: '' @ m,
        mediaRecorderRef := (if mediaRecorderRef st = Some Recording then Some Inactive
                             else mediaRecorderRef st),
        audioContextRef := False, st_isRecording := False\<rparr>"
  by (simp add: startCatch_def)

lemma startCatch_actions:
  "snd (startCatch m st) =
     (if recognitionRef st \<noteq> None then [RecognitionStop] else []) @
     (if mediaRecorderRef st = Some Recording then [RecorderStop] else []) @
     (if audioContextRef st then [AudioContextClose] else [])"
  by (simp add: startCatch_def)

lemma startRecording_failed:
  assumes "\<not> isProcessingAudio v" and "\<not> isRecording v"
    and "startTry v c w (st\<lparr>st_isProcessingAudio := True, st_error := []\<rparr>) = (Some m, st1, a1)"
  shows "startRecording v c w st =
           ((fst (startCatch m st1))\<lparr>st_isProcessingAudio := False\<rparr>, a1 @ snd (startCatch m st1))"
  using assms by (simp add: startRecording_def case_prod_unfold)

text \<open>
  C3. \<open>startRecording\<close> in a render that reads \<open>isRecording\<close> or \<open>isProcessingAudio\<close>
  (a start or stop under way) as true returns at once: the store is unchanged and no
  request is made, so no second session. One call creates at most one session, and none
  when the render has a session id.
\<close>

theorem start_while_active_is_noop:
  "(isProcessingAudio v \<or> isRecording v \<longrightarrow> startRecording v c w st = (st, []))
   \<and> count_list (snd (startRecording v c w st)) HttpCreateSession \<le>
       (if truthy (sessionId v) \<or> isProcessingAudio v \<or> isRecording v then 0 else 1)"
proof -
  obtain x st1 a1
    where t: "startTry v c w (st\<lparr>st_isProcessingAudio := True, st_error := []\<rparr>) = (x, st1, a1)"
    by (metis prod_cases3)
  note e = startTry_effect[OF t]
  have "\<And>m. count_list (snd (startCatch m st1)) HttpCreateSession = 0"
    by (simp add: startCatch_actions)
  then show ?thesis
    using e t by (auto simp: startRecording_def case_prod_unfold split: option.splits)
qed

theorem start_while_active_is_noop_witness:
  "isRecording recordingRender
   \<and> startRecording recordingRender recordingRender goodWorld startedStore = (startedStore, [])
   \<and> count_list (snd (startRecording recordingRender recordingRender goodWorld startedStore))
        HttpCreateSession \<le> 0"
proof -
  have h: "isRecording recordingRender" by simp
  from start_while_active_is_noop[of recordingRender recordingRender goodWorld startedStore] h
  show ?thesis by simp
qed




text \<open>
  When \<open>startRecording\<close> turns recording on, in a render that reads the session id of the
  store, the store has a session id.
\<close>

lemma start_gives_session:
  assumes "st_isRecording (fst (startRecording v c w st))" and "\<not> st_isRecording st"
    and "sessionId v = st_sessionId st"
  shows "truthy (st_sessionId (fst (startRecording v c w st)))"
proof -
  obtain x st1 a1
    where t: "startTry v c w (st\<lparr>st_isProcessingAudio := True, st_error := []\<rparr>) = (x, st1, a1)"
    by (metis prod_cases3)
  have idle: "\<not> isProcessingAudio v \<and> \<not> isRecording v"
    using assms(1,2) by (auto simp: startRecording_def)
  have "x = None"
  proof (cases x)
    case (Some m)
    then have "\<not> st_isRecording (fst (startRecording v c w st))"
      using startRecording_failed[of v c w st m st1 a1] idle t by (simp add: startCatch_store)
    with assms(1) show ?thesis by simp
  qed simp
  then have ok: "fst (startTry v c w (st\<lparr>st_isProcessingAudio := True, st_error := []\<rparr>)) = None"
    using t by simp
  have "st_sessionId (fst (startRecording v c w st)) = st_sessionId st1"
    using t idle \<open>x = None\<close> by (simp add: startRecording_def)
  then show ?thesis
    using startTry_effect[OF t] startTry_succeeds_only_if[OF ok] assms(3) by auto
qed

subsection \<open>The handlers of the recognition object\<close>

text \<open>
  \<open>onresult\<close>, \<open>onend\<close> and the timer function are created by \<open>initSpeechRecognition\<close>
  and never replaced on the object. \<open>startRecording\<close> is the only caller; it goes past
  its first line (\<open>if (isProcessingAudio || isRecording) return\<close>) only in a render that
  reads \<open>isRecording\<close> as false, and the \<open>initSpeechRecognition\<close> it calls is the
  function of a render with the same \<open>isRecording\<close> (the dependency list
  \<open>[finalTranscript, isRecording]\<close> of \<open>useCallback\<close>). \<open>setIsRecording(true)\<close> comes later
  and changes the store, not the constants of that render. So the handlers of every
  recognition object that is started read \<open>isRecording\<close> as false for as long as the object
  lives: \<open>onend\<close> sets no timer, the function it would give to the timer would not
  restart recognition either, and \<open>onresult\<close> sends no text.
\<close>

lemma recognition_results_not_forwarded:
  "\<not> isRecording c \<Longrightarrow> snd (onresult c e r st) = []"
  by (auto simp: onresult_def processTextUpdate_def Let_def split: prod.splits option.splits)

lemma started_recognition_reads_idle:
  assumes "isRecording c = isRecording v"
    and "RecognitionStart \<in> set (snd (startRecording v c w st))"
  shows "\<not> isRecording c \<and> onend c st' = (st', []) \<and> onendTimeout c st' = (st', [])
       \<and> snd (onresult c e r st') = []"
proof -
  have "\<not> isRecording v"
    using assms(2) by (auto simp: startRecording_def)
  then show ?thesis
    using assms(1) by (simp add: onend_def onendTimeout_def recognition_results_not_forwarded)
qed

text \<open>What the handlers would do in a render that reads \<open>isRecording\<close> as true.\<close>

lemma onend_when_recording_is_read:
  "isRecording c \<Longrightarrow> onend c st = (st, [SetTimeout 100])"
  "isRecording c \<Longrightarrow> recognitionRef st \<noteq> None \<Longrightarrow> onendTimeout c st = (st, [RecognitionStart])"
  "recognitionRef st = None \<Longrightarrow> onendTimeout c st = (st, [])"
  by (simp_all add: onend_def onendTimeout_def)

text \<open>
  C8 (when recognition ends while the widget is recording, one restart is attempted after
  100 ms) fails in the running widget. The first start, without any error: the store is
  recording, and the recognition object just started belongs to the first render. When
  that object ends, \<open>onend\<close> sets no timer, and no restart follows.
\<close>

theorem onend_after_start_sets_no_timer:
  "snd (startRecording firstRender firstRender goodWorld initialStore) =
     [HttpCreateSession, GetUserMedia, NewAudioContext, NewMediaRecorder,
      HttpStartSession ''s1'', RecognitionStart, RecorderStart 1000, SetInterval 1000]
   \<and> st_isRecording startedStore
   \<and> recognitionRef startedStore = Some firstRender
   \<and> onend firstRender startedStore = (startedStore, [])
   \<and> onendTimeout firstRender startedStore = (startedStore, [])"
  by (simp add: first_start onend_def onendTimeout_def)

subsection \<open>Recognition results\<close>

lemma processTextUpdate_transcripts [simp]:
  "st_transcript (fst (processTextUpdate v t r st)) = st_transcript st"
  "st_finalTranscript (fst (processTextUpdate v t r st)) = st_finalTranscript st"
  by (simp_all add: processTextUpdate_def split: option.splits)

lemma onresult_interim:
  "onresult c (interimEvent i) r st = (st\<lparr>st_transcript := finalTranscript c @ i\<rparr>, [])"
  by (simp add: onresult_def interimEvent_def)

text \<open>
  A final result is appended to the final transcript with one space after it, and the
  same is appended to whatever the shown transcript was.
\<close>

lemma onresult_final:
  "st_finalTranscript (fst (onresult c (finalEvent t) r st)) = st_finalTranscript st @ t @ '' ''"
  "st_transcript (fst (onresult c (finalEvent t) r st)) = st_transcript st @ t @ '' ''"
  by (simp_all add: onresult_def finalEvent_def Let_def)

lemma interim_text_stays:
  "st_transcript (fst (onresult c (finalEvent t) r' (fst (onresult c (interimEvent i) r st)))) =
     finalTranscript c @ i @ t @ '' ''"
  "st_finalTranscript (fst (onresult c (finalEvent t) r' (fst (onresult c (interimEvent i) r st)))) =
     st_finalTranscript st @ t @ '' ''"
  by (simp_all add: onresult_final onresult_interim)

text \<open>
  The notes-only widget sets the shown transcript from the final text and the interim
  text of the event alone.
\<close>

lemma notes_transcript:
  "st_transcript (notes_onresult c e st) =
     st_finalTranscript (notes_onresult c e st) @
     fst (notesScan (drop (resultIndex e) (results e)) ([], finalTranscript c))"
  by (simp add: notes_onresult_def case_prod_unfold)

text \<open>
  C1 (after interim results and a final result \<open>T\<close>, the final transcript ends with \<open>T\<close>
  and a space, no interim text is left, and the shown transcript is the final transcript
  followed by the interim text) fails in its last part. From the initial store, an interim
  result \<open>hel\<close> followed by the final result \<open>hello\<close>: the final transcript is \<open>hello\<close>
  and a space, but the shown transcript keeps the interim text in front of it. On the same
  events the notes-only widget shows the final transcript.
\<close>

theorem onresult_keeps_interim_text:
  "st_finalTranscript (fst (onresult firstRender (finalEvent ''hello'') goodReply
       (fst (onresult firstRender (interimEvent ''hel'') goodReply initialStore)))) = ''hello ''
   \<and> st_transcript (fst (onresult firstRender (finalEvent ''hello'') goodReply
       (fst (onresult firstRender (interimEvent ''hel'') goodReply initialStore)))) = ''helhello ''
   \<and> st_transcript (notes_onresult firstRender (finalEvent ''hello'')
       (notes_onresult firstRender (interimEvent ''hel'') initialStore)) = ''hello ''"
proof -
  have "st_finalTranscript initialStore = []"
    by (simp add: initialStore_def)
  moreover have "st_transcript (notes_onresult firstRender (finalEvent ''hello'')
       (notes_onresult firstRender (interimEvent ''hel'') initialStore)) = ''hello ''"
    by (simp add: notes_onresult_def interimEvent_def finalEvent_def)
  ultimately show ?thesis
    by (simp add: interim_text_stays)
qed

text \<open>
  C2 (a final segment is sent for analysis exactly when it differs from the last one
  sent, which it then replaces) fails in the running widget. After the first start,
  without any error, the store is recording with the session \<open>s1\<close> and nothing has been
  sent yet. The recognition object then gives the final result \<open>hello\<close>: it is added to
  the final transcript, but no request is made and \<open>lastProcessedText\<close> stays empty.
\<close>

theorem final_segment_not_forwarded:
  "st_isRecording startedStore \<and> st_sessionId startedStore = Some ''s1''
   \<and> recognitionRef startedStore = Some firstRender
   \<and> lastProcessedText startedStore = []
   \<and> snd (onresult firstRender (finalEvent ''hello'') goodReply startedStore) = []
   \<and> lastProcessedText (fst (onresult firstRender (finalEvent ''hello'') goodReply startedStore)) = []
   \<and> st_finalTranscript (fst (onresult firstRender (finalEvent ''hello'') goodReply startedStore)) =
        st_finalTranscript startedStore @ ''hello ''"
  by (simp add: onresult_def finalEvent_def processTextUpdate_def Let_def)

end
